theory Spec2Isabelle
  imports Complex_Main "HOL-Library.AList"
begin

section \<open>Python values\<close>

text \<open>
  The orchestrator and the agents pass leads, task payloads and results around as
  Python dictionaries with string keys.  A dictionary is an association list in
  insertion order, read with \<open>map_of\<close> and written with \<open>AList.update\<close>.
  Strings are ASCII text, one \<open>char\<close> per character.  A Python float is the
  rational number it denotes (section Floats).
\<close>

datatype pyval =
    VNone
  | VBool bool
  | VInt int
  | VFloat rat
  | VStr string
  | VList "pyval list"
  | VDict "(string \<times> pyval) list"

type_synonym dict = "(string \<times> pyval) list"

text \<open>
  Exceptions.  The built-ins modelled below raise \<open>AttributeError\<close>, \<open>ValueError\<close>
  and \<open>IndexError\<close>; their message texts are not modelled.  An exception raised by a
  collaborator whose code is not part of the sources is \<open>Raised m\<close>, with \<open>m\<close> the
  text \<open>str(e)\<close>.
\<close>

datatype exn = AttributeError | ValueError | IndexError | Raised string

text \<open>\<open>d.get(k, default)\<close>\<close>

definition dict_get :: "dict \<Rightarrow> string \<Rightarrow> pyval \<Rightarrow> pyval" where
  "dict_get d k dflt = (case map_of d k of Some v \<Rightarrow> v | None \<Rightarrow> dflt)"

text \<open>Truth value of an object, as \<open>if x:\<close> tests it.\<close>

fun truthy :: "pyval \<Rightarrow> bool" where
  "truthy VNone = False"
| "truthy (VBool b) = b"
| "truthy (VInt i) = (i \<noteq> 0)"
| "truthy (VFloat x) = (x \<noteq> 0)"
| "truthy (VStr s) = (s \<noteq> [])"
| "truthy (VList xs) = (xs \<noteq> [])"
| "truthy (VDict kvs) = (kvs \<noteq> [])"

section \<open>Strings\<close>

text \<open>\<open>str.lower()\<close> on ASCII text.\<close>

definition lower_char :: "char \<Rightarrow> char" where
  "lower_char c =
     (case map_of (zip ''ABCDEFGHIJKLMNOPQRSTUVWXYZ'' ''abcdefghijklmnopqrstuvwxyz'') c of
        Some l \<Rightarrow> l
      | None \<Rightarrow> c)"

definition lower :: "string \<Rightarrow> string" where
  "lower s = map lower_char s"

text \<open>
  \<open>v.lower()\<close> on an arbitrary value: only a string has the method, every other
  value raises \<open>AttributeError\<close>.
\<close>

definition py_lower :: "pyval \<Rightarrow> exn + string" where
  "py_lower v = (case v of VStr s \<Rightarrow> Inr (lower s) | _ \<Rightarrow> Inl AttributeError)"

text \<open>\<open>sub in s\<close> for two strings: \<open>sub\<close> occurs in \<open>s\<close> as a contiguous block.\<close>

fun starts_with :: "string \<Rightarrow> string \<Rightarrow> bool" where
  "starts_with [] s = True"
| "starts_with (p # ps) [] = False"
| "starts_with (p # ps) (c # cs) = (p = c \<and> starts_with ps cs)"

fun contains :: "string \<Rightarrow> string \<Rightarrow> bool" where
  "contains sub [] = (sub = [])"
| "contains sub (c # cs) = (starts_with sub (c # cs) \<or> contains sub cs)"

text \<open>\<open>s.split(sep)\<close> for a separator of one character: one piece more than separators.\<close>

fun split_on :: "char \<Rightarrow> string \<Rightarrow> string list" where
  "split_on sep [] = [[]]"
| "split_on sep (c # cs) =
     (if c = sep then [] # split_on sep cs
      else (c # hd (split_on sep cs)) # tl (split_on sep cs))"

text \<open>\<open>xs[i]\<close> for an index that is not negative.\<close>

definition py_index :: "'a list \<Rightarrow> nat \<Rightarrow> exn + 'a" where
  "py_index xs i = (if i < length xs then Inr (xs ! i) else Inl IndexError)"

text \<open>
  \<open>int(s)\<close> on a string, base 10: white space around the number is dropped, one sign
  may come first, then digits, where single underscores may stand between two digits.
  More than 4300 digits are refused (the interpreter's default limit on integer
  strings).  \<open>None\<close> stands for \<open>ValueError\<close>.
\<close>

definition is_space :: "char \<Rightarrow> bool" where
  "is_space c = (c \<in> set [CHR 0x09, CHR 0x0A, CHR 0x0B, CHR 0x0C, CHR 0x0D, CHR '' ''])"

definition digit_of :: "char \<Rightarrow> int option" where
  "digit_of c = map_of (zip ''0123456789'' [0, 1, 2, 3, 4, 5, 6, 7, 8, 9]) c"

definition strip :: "string \<Rightarrow> string" where
  "strip s = rev (dropWhile is_space (rev (dropWhile is_space s)))"

definition max_str_digits :: nat where
  "max_str_digits = 4300"

definition int_of_digits :: "string \<Rightarrow> int option" where
  "int_of_digits body =
     (let groups = split_on CHR ''_'' body; digits = concat groups in
      if list_all (\<lambda>g. g \<noteq> []) groups \<and> list_all (\<lambda>c. digit_of c \<noteq> None) digits
         \<and> length digits \<le> max_str_digits
      then Some (foldl (\<lambda>acc c. 10 * acc + the (digit_of c)) 0 digits)
      else None)"

definition py_int :: "string \<Rightarrow> int option" where
  "py_int s =
     (case strip s of
        c # rest \<Rightarrow>
          if c = CHR ''+'' then int_of_digits rest
          else if c = CHR ''-'' then map_option uminus (int_of_digits rest)
          else int_of_digits (c # rest)
      | [] \<Rightarrow> None)"

section \<open>Floats\<close>

text \<open>
  A Python float is an IEEE 754 binary64 number; every operation returns the exact
  result rounded to the nearest number with 53 significant bits, ties to the even one.
  A float is modelled as the rational it denotes, and \<open>fl\<close> is that rounding.  The
  unit in the last place of \<open>x\<close> is found by scaling \<open>x\<close> into \<open>[1, 2)\<close>; below
  \<open>2^-1022\<close> it stays \<open>2^-1074\<close>.  Overflow to infinity does not occur here (all
  values stay below 2) and is not modelled.
\<close>

type_synonym pyfloat = rat

fun scale_down :: "nat \<Rightarrow> rat \<Rightarrow> rat \<Rightarrow> rat" where
  "scale_down 0 x u = u"
| "scale_down (Suc n) x u = (if 1 \<le> x then u else scale_down n (2 * x) (u / 2))"

fun scale_up :: "nat \<Rightarrow> rat \<Rightarrow> rat \<Rightarrow> rat" where
  "scale_up 0 x u = u"
| "scale_up (Suc n) x u = (if x < 2 then u else scale_up n (x / 2) (2 * u))"

definition ulp :: "rat \<Rightarrow> rat" where
  "ulp x = (if 1 \<le> x then scale_up 1023 x (1 / 2 ^ 52) else scale_down 1022 x (1 / 2 ^ 52))"

definition fl :: "rat \<Rightarrow> pyfloat" where
  "fl x =
     (if x = 0 then 0
      else
        let a = \<bar>x\<bar>; u = ulp a; q = a / u; m = \<lfloor>q\<rfloor>; r = q - of_int m;
            n = (if r < 1 / 2 \<or> (r = 1 / 2 \<and> even m) then m else m + 1)
        in sgn x * of_int n * u)"

text \<open>\<open>x + y\<close> on floats.\<close>

definition fadd :: "pyfloat \<Rightarrow> pyfloat \<Rightarrow> pyfloat" where
  "fadd x y = fl (x + y)"

section \<open>Lead scoring\<close>

text \<open>\<open>AutonomousDecisionEngine.calculate_lead_score\<close>\<close>

definition high_value_titles :: "string list" where
  "high_value_titles =
     [''CEO'', ''CTO'', ''VP'', ''Director'', ''Head of'', ''Chief'', ''President'']"

definition target_industries :: "string list" where
  "target_industries =
     [''technology'', ''software'', ''ai'', ''healthcare'', ''fintech'', ''saas'']"

text \<open>The company size block: the score after it, or the exception it raises.\<close>

definition company_size_scoring :: "pyval \<Rightarrow> pyfloat \<Rightarrow> exn + pyfloat" where
  "company_size_scoring company_size score =
     (case company_size of
        VStr s \<Rightarrow>
          if CHR ''-'' \<in> set s then
            (case py_index (split_on CHR ''-'' s) 1 of
               Inl e \<Rightarrow> Inl e
             | Inr piece \<Rightarrow>
                 (case py_int piece of
                    None \<Rightarrow> Inl ValueError
                  | Some max_size \<Rightarrow>
                      Inr (if 200 \<le> max_size then fadd score (fl (25 / 100))
                           else if 50 \<le> max_size then fadd score (fl (15 / 100))
                           else score)))
          else Inr score
      | _ \<Rightarrow> Inr score)"

definition calculate_lead_score :: "dict \<Rightarrow> exn + pyfloat" where
  "calculate_lead_score lead =
     (let score = fl 0 in
      case py_lower (dict_get lead ''title'' (VStr '''')) of
        Inl e \<Rightarrow> Inl e
      | Inr title \<Rightarrow>
     (let score = (if list_ex (\<lambda>hvt. contains (lower hvt) title) high_value_titles
                   then fadd score (fl (35 / 100)) else score) in
      case company_size_scoring (dict_get lead ''company_size'' (VStr ''0'')) score of
        Inl e \<Rightarrow> Inl e
      | Inr score \<Rightarrow>
     (case py_lower (dict_get lead ''industry'' (VStr '''')) of
        Inl e \<Rightarrow> Inl e
      | Inr industry \<Rightarrow>
     (let score = (if list_ex (\<lambda>ti. contains ti industry) target_industries
                   then fadd score (fl (20 / 100)) else score);
          score = (if truthy (dict_get lead ''recent_activity'' (VBool False))
                   then fadd score (fl (20 / 100)) else score)
      in Inr (min score (fl 1))))))"

section \<open>Lead qualification\<close>

text \<open>
  \<open>UltraAutomatedOrchestrator._auto_qualify_leads\<close>.  The helper
  \<open>_auto_research_lead\<close> is called but not defined in the sources; it is the parameter
  \<open>auto_research_lead\<close>, which returns the researched lead or raises.  The loop
  carries the list \<open>qualified\<close>; an exception of the scoring or of the research
  leaves the loop and the function.  \<open>mark_qualified\<close> is the two item assignments
  on the researched lead.
\<close>

definition mark_qualified :: "pyfloat \<Rightarrow> dict \<Rightarrow> dict" where
  "mark_qualified score enhanced_lead =
     AList.update ''auto_qualified'' (VBool True)
       (AList.update ''ai_score'' (VFloat score) enhanced_lead)"

fun qualify_loop :: "(dict \<Rightarrow> exn + dict) \<Rightarrow> dict list \<Rightarrow> dict list \<Rightarrow> exn + dict list" where
  "qualify_loop auto_research_lead [] qualified = Inr qualified"
| "qualify_loop auto_research_lead (lead # leads) qualified =
     (case calculate_lead_score lead of
        Inl e \<Rightarrow> Inl e
      | Inr score \<Rightarrow>
          if fl (7 / 10) \<le> score then
            (case auto_research_lead lead of
               Inl e \<Rightarrow> Inl e
             | Inr enhanced_lead \<Rightarrow>
                 qualify_loop auto_research_lead leads
                   (qualified @ [mark_qualified score enhanced_lead]))
          else qualify_loop auto_research_lead leads qualified)"

definition auto_qualify_leads :: "(dict \<Rightarrow> exn + dict) \<Rightarrow> dict list \<Rightarrow> exn + dict list" where
  "auto_qualify_leads auto_research_lead leads = qualify_loop auto_research_lead leads []"

section \<open>Error recovery\<close>

text \<open>
  \<open>AutoErrorRecovery\<close>.  The object has two attributes, set by \<open>__init__\<close>.  The
  methods \<open>_alternative_revenue_methods\<close> and \<open>_send_manual_intervention_alert\<close> are
  called but not defined in the sources: the outcome of the first and the second as a
  function of the message are parameters, and so is the text of \<open>datetime.now()\<close>.
  The exception handed to \<open>handle_revenue_error\<close> is given by its text \<open>str(error)\<close>,
  which is all the method reads of it.  Logging is not modelled.  Every call returns
  its result or exception, the calls it made to the two collaborators, in order, and
  the updated object.
\<close>

record AutoErrorRecovery =
  recovery_attempts :: "string \<rightharpoonup> int"
  max_recovery_attempts :: int

definition AutoErrorRecovery_init :: AutoErrorRecovery where
  "AutoErrorRecovery_init = \<lparr>recovery_attempts = Map.empty, max_recovery_attempts = 3\<rparr>"

datatype call = Alternative_revenue_methods | Send_manual_intervention_alert string

text \<open>The key of the counter: \<open>f"revenue_{str(error)[:50]}"\<close>\<close>

definition revenue_error_key :: "string \<Rightarrow> string" where
  "revenue_error_key error = ''revenue_'' @ take 50 error"

definition newline :: string where
  "newline = [CHR 0x0A]"

definition alert_message :: "string \<Rightarrow> string \<Rightarrow> string \<Rightarrow> string" where
  "alert_message system error now =
     newline @
     ''        RARE MANUAL INTERVENTION REQUIRED (2% case)'' @ newline @
     ''        '' @ newline @
     ''        System: '' @ system @ newline @
     ''        Error: '' @ error @ newline @
     ''        Time: '' @ now @ newline @
     ''        '' @ newline @
     ''        The AI has attempted automatic recovery but requires human oversight.'' @ newline @
     ''        This represents the 2% of cases requiring manual attention.'' @ newline @
     ''        ''"

definition alert_for_manual_intervention ::
  "(string \<Rightarrow> exn + unit) \<Rightarrow> string \<Rightarrow> string \<Rightarrow> string \<Rightarrow> (exn + unit) \<times> call list" where
  "alert_for_manual_intervention send_manual_intervention_alert now system error =
     (send_manual_intervention_alert (alert_message system error now),
      [Send_manual_intervention_alert (alert_message system error now)])"

definition handle_revenue_error ::
  "(exn + unit) \<Rightarrow> (string \<Rightarrow> exn + unit) \<Rightarrow> string \<Rightarrow> string \<Rightarrow> AutoErrorRecovery
     \<Rightarrow> (exn + unit) \<times> call list \<times> AutoErrorRecovery" where
  "handle_revenue_error alternative_revenue_methods send_manual_intervention_alert now error self =
     (let error_key = revenue_error_key error;
          attempts = recovery_attempts self;
          attempts = (if attempts error_key = None then attempts(error_key \<mapsto> 0) else attempts);
          attempts = attempts(error_key \<mapsto> the (attempts error_key) + 1);
          self = self\<lparr>recovery_attempts := attempts\<rparr>
      in if the (attempts error_key) \<le> max_recovery_attempts self then
           (case alternative_revenue_methods of
              Inr u \<Rightarrow> (Inr (), [Alternative_revenue_methods], self)
            | Inl recovery_error \<Rightarrow> (Inr (), [Alternative_revenue_methods], self))
         else
           (case alert_for_manual_intervention send_manual_intervention_alert now ''revenue'' error of
              (result, calls) \<Rightarrow> (result, calls, self)))"

text \<open>
  The failures of a run, handled one after the other on the same object: each entry is
  one call of \<open>handle_revenue_error\<close> with the collaborators' behaviour at that time.
\<close>

fun handle_revenue_errors ::
  "((exn + unit) \<times> (string \<Rightarrow> exn + unit) \<times> string \<times> string) list \<Rightarrow> AutoErrorRecovery
     \<Rightarrow> AutoErrorRecovery" where
  "handle_revenue_errors [] self = self"
| "handle_revenue_errors ((alt, send, now, error) # failures) self =
     handle_revenue_errors failures (snd (snd (handle_revenue_error alt send now error self)))"

section \<open>The orchestrator's entry point\<close>

text \<open>
  \<open>await asyncio.gather(c1, ..., cn)\<close> without \<open>return_exceptions\<close>: given the outcome
  of each awaitable, the list of the results when all return, and otherwise the
  exception of the awaitable that fails first.  When several fail, that is the first
  in time; the outcomes are then taken to be listed with that one before the other
  failures.
\<close>

fun gather :: "(exn + 'a) list \<Rightarrow> exn + 'a list" where
  "gather [] = Inr []"
| "gather (Inl e # outcomes) = Inl e"
| "gather (Inr v # outcomes) = (case gather outcomes of Inl e \<Rightarrow> Inl e | Inr vs \<Rightarrow> Inr (v # vs))"

text \<open>
  \<open>UltraAutomatedOrchestrator.start_autonomous_operation\<close>.  The eight coroutines it
  gathers are parameters, each given by its outcome.  The schedule set up before has no
  part in the result.  The result of \<open>gather\<close> is dropped: the method returns \<open>None\<close>
  or raises.
\<close>

definition start_autonomous_operation ::
  "(exn + 'a) \<Rightarrow> (exn + 'a) \<Rightarrow> (exn + 'a) \<Rightarrow> (exn + 'a) \<Rightarrow> (exn + 'a) \<Rightarrow> (exn + 'a)
     \<Rightarrow> (exn + 'a) \<Rightarrow> (exn + 'a) \<Rightarrow> exn + unit" where
  "start_autonomous_operation autonomous_revenue_generation autonomous_lead_management
       autonomous_content_creation autonomous_opportunity_hunting autonomous_client_management
       autonomous_error_recovery autonomous_optimization weekly_autonomous_strategy =
     (case gather [autonomous_revenue_generation, autonomous_lead_management,
                   autonomous_content_creation, autonomous_opportunity_hunting,
                   autonomous_client_management, autonomous_error_recovery,
                   autonomous_optimization, weekly_autonomous_strategy] of
        Inl e \<Rightarrow> Inl e
      | Inr results \<Rightarrow> Inr ())"

section \<open>Agents\<close>

text \<open>
  An exception raised by a handler is given by its text \<open>str(e)\<close>, which is all
  \<open>execute_task\<close> reads of it.  \<open>execute_task\<close> returns its result together with
  the values it assigns to \<open>self.status\<close>, in order; the last one is the status the
  agent is left in.
\<close>

definition quote :: string where
  "quote = [CHR 0x27]"

text \<open>\<open>PodcastBookingAgent._find_relevant_podcasts\<close>\<close>

definition find_relevant_podcasts :: "dict \<Rightarrow> string + pyval list" where
  "find_relevant_podcasts criteria =
     Inr [VDict [(''name'', VStr ''AI Ethics Weekly''),
                 (''host'', VStr ''Dr. Sarah Chen''),
                 (''email'', VStr ''booking@aiethicsweekly.com''),
                 (''audience_size'', VInt 15000),
                 (''topic_match'', VStr ''AI ethics''),
                 (''last_episode_date'', VStr ''2024-01-15'')],
          VDict [(''name'', VStr ''Inclusive Tech Leaders''),
                 (''host'', VStr ''Marcus Johnson''),
                 (''email'', VStr ''marcus@inclusivetechleaders.com''),
                 (''audience_size'', VInt 8500),
                 (''topic_match'', VStr ''inclusive design''),
                 (''last_episode_date'', VStr ''2024-01-10'')]]"

text \<open>
  \<open>PodcastBookingAgent._send_podcast_pitches\<close>: \<open>data["podcasts"]\<close> raises
  \<open>KeyError\<close> when the key is missing.  What follows (the template, the personalised
  pitches, the time stamps) is the parameter \<open>pitch\<close>.
\<close>

definition send_podcast_pitches ::
  "(pyval \<Rightarrow> dict \<Rightarrow> string + pyval list) \<Rightarrow> dict \<Rightarrow> string + pyval list" where
  "send_podcast_pitches pitch data =
     (case map_of data ''podcasts'' of
        None \<Rightarrow> Inl (quote @ ''podcasts'' @ quote)
      | Some podcasts \<Rightarrow> pitch podcasts data)"

text \<open>
  Modelled from the spec: the module \<open>full_agent_architecture\<close>, which declares
  \<open>AgentStatus\<close>, \<open>Task\<close> and \<open>BaseAgent\<close>, is not part of the sources.  The status
  has the four values the specification names for an execution status; a task has the
  two attributes the agents read.
\<close>

datatype AgentStatus = PENDING | WORKING | COMPLETED | ERROR

record Task =
  task_type :: string
  data :: dict

text \<open>
  The frame shared by every \<open>execute_task\<close>: the status is set to \<open>WORKING\<close>, the
  \<open>try\<close> block runs, an exception sets \<open>ERROR\<close> and becomes the result
  \<open>{"error": str(e)}\<close>, and the \<open>finally\<close> clause sets \<open>COMPLETED\<close> in every case.
\<close>

definition try_except_finally :: "string + pyval \<Rightarrow> pyval \<times> AgentStatus list" where
  "try_except_finally block =
     (let statuses = [WORKING];
          (result, statuses) =
             (case block of
                Inr v \<Rightarrow> (v, statuses)
              | Inl e \<Rightarrow> (VDict [(''error'', VStr e)], statuses @ [ERROR]));
          statuses = statuses @ [COMPLETED]
      in (result, statuses))"

text \<open>\<open>PodcastBookingAgent.execute_task\<close>: the \<open>try\<close> block, then the whole method.\<close>

definition PodcastBookingAgent_try ::
  "(pyval \<Rightarrow> dict \<Rightarrow> string + pyval list) \<Rightarrow> Task \<Rightarrow> string + pyval" where
  "PodcastBookingAgent_try pitch task =
     (if task_type task = ''find_podcasts'' then
        (case find_relevant_podcasts (data task) of
           Inl e \<Rightarrow> Inl e
         | Inr podcasts \<Rightarrow>
             Inr (VDict [(''podcasts_found'', VInt (int (length podcasts))),
                         (''podcasts'', VList podcasts)]))
      else if task_type task = ''pitch_podcast'' then
        (case send_podcast_pitches pitch (data task) of
           Inl e \<Rightarrow> Inl e
         | Inr pitch_results \<Rightarrow>
             Inr (VDict [(''pitches_sent'', VInt (int (length pitch_results))),
                         (''results'', VList pitch_results)]))
      else Inr VNone)"

definition PodcastBookingAgent_execute_task ::
  "(pyval \<Rightarrow> dict \<Rightarrow> string + pyval list) \<Rightarrow> Task \<Rightarrow> pyval \<times> AgentStatus list" where
  "PodcastBookingAgent_execute_task pitch task =
     try_except_finally (PodcastBookingAgent_try pitch task)"

text \<open>
  \<open>SENANUKimonoAgent.execute_task\<close>.  Its three handlers reach into code that is not
  in the sources; each is a parameter that returns a value or raises.
\<close>

definition SENANUKimonoAgent_try ::
  "(dict \<Rightarrow> string + pyval) \<Rightarrow> (dict \<Rightarrow> string + pyval) \<Rightarrow> (dict \<Rightarrow> string + pyval)
     \<Rightarrow> Task \<Rightarrow> string + pyval" where
  "SENANUKimonoAgent_try process_custom_order schedule_styling_session styling_followup task =
     (if task_type task = ''process_kimono_order'' then
        (case process_custom_order (data task) of
           Inl e \<Rightarrow> Inl e
         | Inr order \<Rightarrow> Inr (VDict [(''order'', order), (''status'', VStr ''processed'')]))
      else if task_type task = ''schedule_styling'' then
        (case schedule_styling_session (data task) of
           Inl e \<Rightarrow> Inl e
         | Inr session \<Rightarrow> Inr (VDict [(''session'', session)]))
      else if task_type task = ''follow_up_styling'' then
        (case styling_followup (data task) of
           Inl e \<Rightarrow> Inl e
         | Inr followup \<Rightarrow> Inr (VDict [(''followup'', followup)]))
      else Inr VNone)"

definition SENANUKimonoAgent_execute_task ::
  "(dict \<Rightarrow> string + pyval) \<Rightarrow> (dict \<Rightarrow> string + pyval) \<Rightarrow> (dict \<Rightarrow> string + pyval)
     \<Rightarrow> Task \<Rightarrow> pyval \<times> AgentStatus list" where
  "SENANUKimonoAgent_execute_task process_custom_order schedule_styling_session styling_followup task =
     try_except_finally
       (SENANUKimonoAgent_try process_custom_order schedule_styling_session styling_followup task)"

section \<open>Properties of the floats and of the string functions\<close>

lemma scale_down_pos: "0 < u \<Longrightarrow> 0 < scale_down n x u"
  by (induction n arbitrary: x u) auto

lemma scale_up_pos: "0 < u \<Longrightarrow> 0 < scale_up n x u"
  by (induction n arbitrary: x u) auto

lemma ulp_pos: "0 < ulp x"
  by (simp add: ulp_def scale_down_pos scale_up_pos)

lemma fl_nonneg: "0 \<le> x \<Longrightarrow> 0 \<le> fl x"
proof (cases "x = 0")
  case True
  then show ?thesis by (simp add: fl_def)
next
  case False
  assume "0 \<le> x"
  with False have pos: "0 < x" by simp
  have "0 \<le> \<bar>x\<bar> / ulp \<bar>x\<bar>"
    using ulp_pos [of "\<bar>x\<bar>"] by simp
  then have m: "0 \<le> \<lfloor>\<bar>x\<bar> / ulp \<bar>x\<bar>\<rfloor>"
    by simp
  show ?thesis
    using pos m ulp_pos [of "\<bar>x\<bar>"] by (simp add: fl_def Let_def)
qed

lemma fadd_nonneg: "0 \<le> x \<Longrightarrow> 0 \<le> y \<Longrightarrow> 0 \<le> fadd x y"
  by (simp add: fadd_def fl_nonneg)

lemma fl_1: "fl 1 = 1"
  by code_simp

text \<open>A string with a separator splits into two pieces at least, so \<open>[1]\<close> is in range.\<close>

lemma length_split_on: "length (split_on sep s) = Suc (length (filter (\<lambda>c. c = sep) s))"
proof (induction s)
  case Nil
  show ?case by simp
next
  case (Cons c cs)
  then have "split_on sep cs \<noteq> []" by auto
  with Cons show ?case by (cases "split_on sep cs") auto
qed

lemma split_on_second: "sep \<in> set s \<Longrightarrow> 1 < length (split_on sep s)"
proof -
  assume "sep \<in> set s"
  then have "filter (\<lambda>c. c = sep) s \<noteq> []"
    by (simp add: filter_empty_conv)
  then show ?thesis
    by (simp add: length_split_on)
qed

lemmas string_defs = lower_def lower_char_def py_lower_def dict_get_def py_index_def py_int_def
  strip_def is_space_def int_of_digits_def digit_of_def max_str_digits_def
  high_value_titles_def target_industries_def

section \<open>The lead score\<close>

lemma company_size_scoring_range:
  assumes "0 \<le> score"
    and "\<forall>s. v = VStr s \<longrightarrow> CHR ''-'' \<in> set s \<longrightarrow> py_int (split_on CHR ''-'' s ! 1) \<noteq> None"
  shows "\<exists>score'. company_size_scoring v score = Inr score' \<and> 0 \<le> score'"
proof (cases v)
  case (VStr s)
  show ?thesis
  proof (cases "CHR ''-'' \<in> set s")
    case True
    with assms(2) VStr obtain n where n: "py_int (split_on CHR ''-'' s ! 1) = Some n"
      by auto
    from True have "1 < length (split_on CHR ''-'' s)"
      by (rule split_on_second)
    with True VStr n assms(1) show ?thesis
      by (simp add: company_size_scoring_def py_index_def fadd_nonneg fl_nonneg)
  next
    case False
    with VStr assms(1) show ?thesis
      by (simp add: company_size_scoring_def)
  qed
qed (use assms(1) in \<open>simp_all add: company_size_scoring_def\<close>)

text \<open>
  Claim C1, as amended.  For every lead whose title and industry are strings (or
  missing, which reads as the empty string) and whose company size, when it is a string
  with a \<open>-\<close>, has text after the first \<open>-\<close> (up to the next one) that \<open>int\<close>
  accepts, \<open>calculate_lead_score\<close> returns a value \<open>s\<close> with \<open>0.0 \<le> s \<le> 1.0\<close>.
\<close>

theorem calculate_lead_score_range:
  assumes title: "dict_get lead ''title'' (VStr '''') = VStr t"
    and industry: "dict_get lead ''industry'' (VStr '''') = VStr i"
    and size: "\<forall>s. dict_get lead ''company_size'' (VStr ''0'') = VStr s \<longrightarrow> CHR ''-'' \<in> set s
                 \<longrightarrow> py_int (split_on CHR ''-'' s ! 1) \<noteq> None"
  shows "\<exists>s. calculate_lead_score lead = Inr s \<and> 0 \<le> s \<and> s \<le> 1"
proof -
  define score1 where
    "score1 = (if list_ex (\<lambda>hvt. contains (lower hvt) (lower t)) high_value_titles
               then fadd (fl 0) (fl (35 / 100)) else fl 0)"
  have "0 \<le> score1"
    by (simp add: score1_def fadd_nonneg fl_nonneg)
  with size obtain score2 where
    score2: "company_size_scoring (dict_get lead ''company_size'' (VStr ''0'')) score1 = Inr score2"
    and pos2: "0 \<le> score2"
    using company_size_scoring_range by blast
  define score4 where
    "score4 = (let score = (if list_ex (\<lambda>ti. contains ti (lower i)) target_industries
                            then fadd score2 (fl (20 / 100)) else score2)
               in (if truthy (dict_get lead ''recent_activity'' (VBool False))
                   then fadd score (fl (20 / 100)) else score))"
  have pos4: "0 \<le> score4"
    using pos2 by (simp add: score4_def Let_def fadd_nonneg fl_nonneg)
  have "calculate_lead_score lead = Inr (min score4 (fl 1))"
    using title industry score2
    by (simp add: calculate_lead_score_def py_lower_def Let_def score1_def score4_def)
  with pos4 show ?thesis
    by (simp add: fl_1)
qed

text \<open>The amended claim at a lead with a senior title, a small company and no activity.\<close>

theorem calculate_lead_score_range_witness:
  "\<exists>s. calculate_lead_score
         [(''title'', VStr ''Chief Architect''), (''company_size'', VStr ''11-50''),
          (''industry'', VStr ''Logistics'')] = Inr s \<and> 0 \<le> s \<and> s \<le> 1"
proof -
  have title:
    "dict_get [(''title'', VStr ''Chief Architect''), (''company_size'', VStr ''11-50''),
               (''industry'', VStr ''Logistics'')] ''title'' (VStr '''') = VStr ''Chief Architect''"
    by (simp add: dict_get_def)
  have industry:
    "dict_get [(''title'', VStr ''Chief Architect''), (''company_size'', VStr ''11-50''),
               (''industry'', VStr ''Logistics'')] ''industry'' (VStr '''') = VStr ''Logistics''"
    by (simp add: dict_get_def)
  have size:
    "\<forall>s. dict_get [(''title'', VStr ''Chief Architect''), (''company_size'', VStr ''11-50''),
                   (''industry'', VStr ''Logistics'')] ''company_size'' (VStr ''0'') = VStr s
         \<longrightarrow> CHR ''-'' \<in> set s \<longrightarrow> py_int (split_on CHR ''-'' s ! 1) \<noteq> None"
    by (simp add: string_defs)
  show ?thesis
    using calculate_lead_score_range [OF title industry size] .
qed

text \<open>
  Claim C1 as stated fails: a lead whose title is \<open>None\<close> (the key is present, so the
  default of \<open>get\<close> is not used) gets no score, \<open>None.lower()\<close> raises.
\<close>

theorem calculate_lead_score_title_None:
  "calculate_lead_score [(''title'', VNone), (''company_size'', VStr ''50-500'')]
     = Inl AttributeError"
  by (simp add: calculate_lead_score_def string_defs)

text \<open>
  Claim C3 (a malformed company size contributes 0 and never raises) at the company
  size \<open>abc-def\<close>: the text has a \<open>-\<close>, so \<open>int("def")\<close> is evaluated and its
  \<open>ValueError\<close> leaves \<open>calculate_lead_score\<close>.
\<close>

theorem calculate_lead_score_malformed_size:
  "calculate_lead_score [(''company_size'', VStr ''abc-def'')] = Inl ValueError"
  by (simp add: calculate_lead_score_def company_size_scoring_def string_defs)

text \<open>
  Claim C8.  The lead with title \<open>VP of Engineering\<close>, company size \<open>50-500\<close>,
  industry \<open>SaaS\<close> and recent activity scores exactly 1.0: the four float additions
  \<open>0.0 + 0.35 + 0.25 + 0.20 + 0.20\<close> round to 1.0.
\<close>

theorem calculate_lead_score_full:
  "calculate_lead_score
     [(''title'', VStr ''VP of Engineering''), (''company_size'', VStr ''50-500''),
      (''industry'', VStr ''SaaS''), (''recent_activity'', VBool True)] = Inr 1"
proof -
  have "calculate_lead_score
          [(''title'', VStr ''VP of Engineering''), (''company_size'', VStr ''50-500''),
           (''industry'', VStr ''SaaS''), (''recent_activity'', VBool True)]
        = Inr (min (fadd (fadd (fadd (fadd (fl 0) (fl (35 / 100))) (fl (25 / 100)))
                       (fl (20 / 100))) (fl (20 / 100))) (fl 1))"
    by (simp add: calculate_lead_score_def company_size_scoring_def string_defs)
  also have "min (fadd (fadd (fadd (fadd (fl 0) (fl (35 / 100))) (fl (25 / 100)))
                    (fl (20 / 100))) (fl (20 / 100))) (fl 1) = 1"
    by code_simp
  finally show ?thesis .
qed

section \<open>Lead qualification: the result\<close>

lemma qualify_loop_result:
  assumes "\<forall>l\<in>set leads. \<exists>s. calculate_lead_score l = Inr s"
    and "\<forall>l\<in>set leads. fl (7 / 10) \<le> projr (calculate_lead_score l)
           \<longrightarrow> (\<exists>d. auto_research_lead l = Inr d)"
  shows "qualify_loop auto_research_lead leads qualified =
         Inr (qualified @
              map (\<lambda>l. mark_qualified (projr (calculate_lead_score l)) (projr (auto_research_lead l)))
                (filter (\<lambda>l. fl (7 / 10) \<le> projr (calculate_lead_score l)) leads))"
  using assms
proof (induction leads arbitrary: "qualified")
  case Nil
  show ?case by simp
next
  case (Cons lead leads)
  from Cons.prems(1) obtain score where score: "calculate_lead_score lead = Inr score"
    by auto
  from Cons.prems have rest:
    "\<forall>l\<in>set leads. \<exists>s. calculate_lead_score l = Inr s"
    "\<forall>l\<in>set leads. fl (7 / 10) \<le> projr (calculate_lead_score l)
       \<longrightarrow> (\<exists>d. auto_research_lead l = Inr d)"
    by simp_all
  show ?case
  proof (cases "fl (7 / 10) \<le> score")
    case True
    with Cons.prems(2) score obtain d where d: "auto_research_lead lead = Inr d"
      by auto
    show ?thesis
      using True score d Cons.IH [OF rest] by simp
  next
    case False
    show ?thesis
      using False score Cons.IH [OF rest] by simp
  qed
qed

lemma mark_qualified_keys:
  "map_of (mark_qualified score d) ''ai_score'' = Some (VFloat score)"
  "map_of (mark_qualified score d) ''auto_qualified'' = Some (VBool True)"
  by (simp_all add: mark_qualified_def update_conv')

text \<open>
  Claim C10, as amended.  For every list of leads on which the scoring raises for no
  lead and the research raises for no lead that scores 0.7 or more,
  \<open>_auto_qualify_leads\<close> returns, in the order of the input, one entry for each lead
  whose score is at least 0.7 and none for the others; the entry is the researched lead
  with \<open>ai_score\<close> set to the score computed for the lead and \<open>auto_qualified\<close>
  set to \<open>True\<close>.
\<close>

theorem auto_qualify_leads_result:
  assumes "\<forall>l\<in>set leads. \<exists>s. calculate_lead_score l = Inr s"
    and "\<forall>l\<in>set leads. fl (7 / 10) \<le> projr (calculate_lead_score l)
           \<longrightarrow> (\<exists>d. auto_research_lead l = Inr d)"
  shows "\<exists>out. auto_qualify_leads auto_research_lead leads = Inr out
     \<and> list_all2
         (\<lambda>l d. d = mark_qualified (projr (calculate_lead_score l)) (projr (auto_research_lead l))
              \<and> map_of d ''ai_score'' = Some (VFloat (projr (calculate_lead_score l)))
              \<and> map_of d ''auto_qualified'' = Some (VBool True))
         (filter (\<lambda>l. fl (7 / 10) \<le> projr (calculate_lead_score l)) leads) out"
proof -
  have "auto_qualify_leads auto_research_lead leads =
        Inr (map (\<lambda>l. mark_qualified (projr (calculate_lead_score l)) (projr (auto_research_lead l)))
               (filter (\<lambda>l. fl (7 / 10) \<le> projr (calculate_lead_score l)) leads))"
    using qualify_loop_result [OF assms, of "[]"] by (simp add: auto_qualify_leads_def)
  then show ?thesis
    by (simp add: list_all2_map2 list_all2_same mark_qualified_keys)
qed

text \<open>
  The amended claim on two leads, with a research that returns the lead as it is: the
  first scores \<open>0.35 + 0.25 + 0.20 = 0.8\<close> and is returned marked, the second scores
  0.2 and is dropped.
\<close>

theorem auto_qualify_leads_result_witness:
  "auto_qualify_leads (\<lambda>l. Inr l)
     [[(''title'', VStr ''CEO''), (''company_size'', VStr ''201-500''),
       (''industry'', VStr ''Software'')],
      [(''title'', VStr ''Intern''), (''recent_activity'', VBool True)]]
   = Inr [[(''title'', VStr ''CEO''), (''company_size'', VStr ''201-500''),
           (''industry'', VStr ''Software''),
           (''ai_score'', VFloat (3602879701896397 / 4503599627370496)),
           (''auto_qualified'', VBool True)]]"
proof -
  have "calculate_lead_score
          [(''title'', VStr ''CEO''), (''company_size'', VStr ''201-500''),
           (''industry'', VStr ''Software'')]
        = Inr (min (fadd (fadd (fadd (fl 0) (fl (35 / 100))) (fl (25 / 100))) (fl (20 / 100)))
                 (fl 1))"
    by (simp add: calculate_lead_score_def company_size_scoring_def string_defs)
  also have "min (fadd (fadd (fadd (fl 0) (fl (35 / 100))) (fl (25 / 100))) (fl (20 / 100))) (fl 1)
             = 3602879701896397 / 4503599627370496"
    by code_simp
  finally have a:
    "calculate_lead_score
       [(''title'', VStr ''CEO''), (''company_size'', VStr ''201-500''),
        (''industry'', VStr ''Software'')]
     = Inr (3602879701896397 / 4503599627370496)" .
  have "calculate_lead_score [(''title'', VStr ''Intern''), (''recent_activity'', VBool True)]
        = Inr (min (fadd (fl 0) (fl (20 / 100))) (fl 1))"
    by (simp add: calculate_lead_score_def company_size_scoring_def string_defs)
  also have "min (fadd (fl 0) (fl (20 / 100))) (fl 1) = 3602879701896397 / 18014398509481984"
    by code_simp
  finally have b:
    "calculate_lead_score [(''title'', VStr ''Intern''), (''recent_activity'', VBool True)]
     = Inr (3602879701896397 / 18014398509481984)" .
  have threshold: "fl (7 / 10) = 3152519739159347 / 4503599627370496"
    by code_simp
  have scores:
    "\<forall>l\<in>set [[(''title'', VStr ''CEO''), (''company_size'', VStr ''201-500''),
                 (''industry'', VStr ''Software'')],
                [(''title'', VStr ''Intern''), (''recent_activity'', VBool True)]].
       \<exists>s. calculate_lead_score l = Inr s"
    using a b by (simp del: sum.inject) blast
  have research:
    "\<forall>l\<in>set [[(''title'', VStr ''CEO''), (''company_size'', VStr ''201-500''),
                 (''industry'', VStr ''Software'')],
                [(''title'', VStr ''Intern''), (''recent_activity'', VBool True)]].
       fl (7 / 10) \<le> projr (calculate_lead_score l) \<longrightarrow> (\<exists>d. (Inr l :: exn + dict) = Inr d)"
    by simp
  show ?thesis
    using auto_qualify_leads_result [OF scores research]
    by (simp add: a b threshold list_all2_Cons1 mark_qualified_def)
qed

text \<open>
  Claim C10 as stated fails: on a list with a lead whose industry is \<open>None\<close> the
  scoring raises, and \<open>_auto_qualify_leads\<close> returns no list at all.
\<close>

theorem auto_qualify_leads_industry_None:
  "auto_qualify_leads (\<lambda>l. Inr l) [[(''title'', VStr ''CEO''), (''industry'', VNone)]]
     = Inl AttributeError"
  by (simp add: auto_qualify_leads_def calculate_lead_score_def company_size_scoring_def
      string_defs)

section \<open>Error recovery: counting and escalation\<close>

text \<open>
  One call of \<open>handle_revenue_error\<close>, by the count \<open>n\<close> the key reaches: up to
  the ceiling the fallback is tried and the call returns, whatever the fallback did; above
  it the alert is sent and its outcome is the outcome of the call.
\<close>

lemma handle_revenue_error_eq:
  "handle_revenue_error alt send now error self =
     (let k = revenue_error_key error;
          n = (case recovery_attempts self k of None \<Rightarrow> 0 | Some c \<Rightarrow> c) + 1;
          self' = self\<lparr>recovery_attempts := (recovery_attempts self)(k \<mapsto> n)\<rparr>
      in if n \<le> max_recovery_attempts self
         then (Inr (), [Alternative_revenue_methods], self')
         else (send (alert_message ''revenue'' error now),
               [Send_manual_intervention_alert (alert_message ''revenue'' error now)], self'))"
  by (cases "recovery_attempts self (revenue_error_key error)"; cases alt)
     (simp_all add: handle_revenue_error_def alert_for_manual_intervention_def Let_def)

lemma starts_with_append: "starts_with p (p @ s)"
  by (induction p) simp_all

lemma contains_prefix: "starts_with sub s \<Longrightarrow> contains sub s"
  by (cases s; cases sub) simp_all

lemma contains_append_left: "contains sub s \<Longrightarrow> contains sub (xs @ s)"
  by (induction xs) simp_all

lemma contains_mid: "contains sub (xs @ sub @ ys)"
  by (simp add: contains_append_left contains_prefix starts_with_append)

lemma handle_revenue_error_other_key:
  "revenue_error_key error \<noteq> key \<Longrightarrow>
   recovery_attempts (snd (snd (handle_revenue_error alt send now error self))) key
     = recovery_attempts self key"
  by (simp add: handle_revenue_error_eq Let_def)

text \<open>
  Claim C2.  On a new \<open>AutoErrorRecovery\<close> object, four failures in a row whose
  errors have the same key: each of the first three tries the fallback and returns
  (so after two failures the third does not escalate), and the fourth, which comes after
  exactly three, sends the manual intervention alert for the revenue system and the
  error, and ends as the sending ends.
\<close>

theorem handle_revenue_error_four_failures:
  assumes "revenue_error_key e1 = k" and "revenue_error_key e2 = k"
    and "revenue_error_key e3 = k" and "revenue_error_key e4 = k"
  shows
    "(case handle_revenue_error alt_a send_a now_a e1 AutoErrorRecovery_init of (r1, c1, s1) \<Rightarrow>
      case handle_revenue_error alt_b send_b now_b e2 s1 of (r2, c2, s2) \<Rightarrow>
      case handle_revenue_error alt_c send_c now_c e3 s2 of (r3, c3, s3) \<Rightarrow>
      case handle_revenue_error alt_d send_d now_d e4 s3 of (r4, c4, s4) \<Rightarrow>
        (r1, c1) = (Inr (), [Alternative_revenue_methods])
      \<and> (r2, c2) = (Inr (), [Alternative_revenue_methods])
      \<and> (r3, c3) = (Inr (), [Alternative_revenue_methods])
      \<and> (r4, c4) = (send_d (alert_message ''revenue'' e4 now_d),
                     [Send_manual_intervention_alert (alert_message ''revenue'' e4 now_d)]))"
  using assms by (simp add: handle_revenue_error_eq AutoErrorRecovery_init_def Let_def)

text \<open>
  Four time-outs whose texts differ only after the fiftieth character, with a fallback
  that itself fails on the second failure and an alert that is delivered.
\<close>

theorem handle_revenue_error_four_failures_witness:
  "(case handle_revenue_error (Inr ()) (\<lambda>m. Inr ()) ''2024-05-01 08:00:00''
           ''connection to the payment gateway timed out after 30 seconds''
           AutoErrorRecovery_init of (r1, c1, s1) \<Rightarrow>
    case handle_revenue_error (Inl (Raised ''no fallback'')) (\<lambda>m. Inr ()) ''2024-05-01 10:00:00''
           ''connection to the payment gateway timed out after 45 seconds'' s1 of (r2, c2, s2) \<Rightarrow>
    case handle_revenue_error (Inr ()) (\<lambda>m. Inr ()) ''2024-05-01 12:00:00''
           ''connection to the payment gateway timed out after 60 seconds'' s2 of (r3, c3, s3) \<Rightarrow>
    case handle_revenue_error (Inr ()) (\<lambda>m. Inr ()) ''2024-05-01 14:00:00''
           ''connection to the payment gateway timed out after 90 seconds'' s3 of (r4, c4, s4) \<Rightarrow>
        (r1, c1) = (Inr (), [Alternative_revenue_methods])
      \<and> (r2, c2) = (Inr (), [Alternative_revenue_methods])
      \<and> (r3, c3) = (Inr (), [Alternative_revenue_methods])
      \<and> (r4, c4) = (Inr (),
                     [Send_manual_intervention_alert
                        (alert_message ''revenue''
                           ''connection to the payment gateway timed out after 90 seconds''
                           ''2024-05-01 14:00:00'')]))"
proof -
  have k1: "revenue_error_key ''connection to the payment gateway timed out after 30 seconds''
              = ''revenue_connection to the payment gateway timed out after ''"
    by (simp add: revenue_error_key_def)
  have k2: "revenue_error_key ''connection to the payment gateway timed out after 45 seconds''
              = ''revenue_connection to the payment gateway timed out after ''"
    by (simp add: revenue_error_key_def)
  have k3: "revenue_error_key ''connection to the payment gateway timed out after 60 seconds''
              = ''revenue_connection to the payment gateway timed out after ''"
    by (simp add: revenue_error_key_def)
  have k4: "revenue_error_key ''connection to the payment gateway timed out after 90 seconds''
              = ''revenue_connection to the payment gateway timed out after ''"
    by (simp add: revenue_error_key_def)
  show ?thesis
    using handle_revenue_error_four_failures [OF k1 k2 k3 k4,
        where alt_a = "Inr ()" and send_a = "\<lambda>m. Inr ()" and now_a = "''2024-05-01 08:00:00''"
          and alt_b = "Inl (Raised ''no fallback'')" and send_b = "\<lambda>m. Inr ()"
          and now_b = "''2024-05-01 10:00:00''"
          and alt_c = "Inr ()" and send_c = "\<lambda>m. Inr ()" and now_c = "''2024-05-01 12:00:00''"
          and alt_d = "Inr ()" and send_d = "\<lambda>m. Inr ()" and now_d = "''2024-05-01 14:00:00''"]
    by simp
qed

text \<open>
  Claim C9.  For two distinct keys A and B, any number of failures whose errors have
  key A, handled one after the other, leave the entry of key B in
  \<open>recovery_attempts\<close> as it was (absent, or with the same count).
\<close>

theorem recovery_counters_independent:
  assumes "\<forall>(alt, send, now, error)\<in>set failures. revenue_error_key error = key_a"
    and "key_a \<noteq> key_b"
  shows "recovery_attempts (handle_revenue_errors failures self) key_b
           = recovery_attempts self key_b"
  using assms
proof (induction failures arbitrary: self)
  case Nil
  show ?case by simp
next
  case (Cons f failures)
  obtain alt send now error where f: "f = (alt, send, now, error)"
    by (cases f) auto
  with Cons.prems have "revenue_error_key error \<noteq> key_b"
    by auto
  then have step:
    "recovery_attempts (snd (snd (handle_revenue_error alt send now error self))) key_b
       = recovery_attempts self key_b"
    by (rule handle_revenue_error_other_key)
  have "recovery_attempts
          (handle_revenue_errors failures
             (snd (snd (handle_revenue_error alt send now error self)))) key_b
        = recovery_attempts (snd (snd (handle_revenue_error alt send now error self))) key_b"
    using Cons.prems by (intro Cons.IH) auto
  with step show ?case
    by (simp add: f)
qed

text \<open>
  Five failures under the key of \<open>timeout\<close>, the last two past the ceiling, on an
  object that has counted two failures under the key of \<open>disk full\<close>.
\<close>

theorem recovery_counters_independent_witness:
  "recovery_attempts
     (handle_revenue_errors
        [(Inr (), \<lambda>m. Inr (), ''08:00'', ''timeout''),
         (Inr (), \<lambda>m. Inr (), ''09:00'', ''timeout''),
         (Inl (Raised ''no fallback''), \<lambda>m. Inr (), ''10:00'', ''timeout''),
         (Inr (), \<lambda>m. Inl (Raised ''mail server down''), ''11:00'', ''timeout''),
         (Inr (), \<lambda>m. Inr (), ''12:00'', ''timeout'')]
        \<lparr>recovery_attempts = [''revenue_disk full'' \<mapsto> 2], max_recovery_attempts = 3\<rparr>)
     ''revenue_disk full'' = Some 2"
proof -
  have keys:
    "\<forall>(alt, send, now, error)\<in>set
        [(Inr (), \<lambda>m. Inr (), ''08:00'', ''timeout''),
         (Inr (), \<lambda>m. Inr (), ''09:00'', ''timeout''),
         (Inl (Raised ''no fallback''), \<lambda>m. Inr (), ''10:00'', ''timeout''),
         (Inr (), \<lambda>m. Inl (Raised ''mail server down''), ''11:00'', ''timeout''),
         (Inr (), \<lambda>m. Inr (), ''12:00'', ''timeout'')].
       revenue_error_key error = ''revenue_timeout''"
    by (simp add: revenue_error_key_def)
  have distinct: "''revenue_timeout'' \<noteq> ''revenue_disk full''"
    by simp
  show ?thesis
    using recovery_counters_independent [OF keys distinct,
        where self = "\<lparr>recovery_attempts = [''revenue_disk full'' \<mapsto> 2],
                       max_recovery_attempts = 3\<rparr>"]
    by simp
qed

text \<open>
  Claim C7.  Whenever a failure takes the count of its key above the ceiling,
  \<open>handle_revenue_error\<close> calls the alert sender, and nothing else, with the alert
  message, which carries the system, the text of the error and the time; the outcome
  of the sender, a failure included, is the outcome of \<open>handle_revenue_error\<close>.
\<close>

theorem escalation_reaches_alert:
  assumes "max_recovery_attempts self
             < (case recovery_attempts self (revenue_error_key error) of
                  None \<Rightarrow> 0 | Some n \<Rightarrow> n) + 1"
  shows "fst (handle_revenue_error alt send now error self)
           = send (alert_message ''revenue'' error now)
     \<and> fst (snd (handle_revenue_error alt send now error self))
           = [Send_manual_intervention_alert (alert_message ''revenue'' error now)]
     \<and> contains ''revenue'' (alert_message ''revenue'' error now)
     \<and> contains error (alert_message ''revenue'' error now)
     \<and> contains now (alert_message ''revenue'' error now)"
proof -
  have "alert_message ''revenue'' error now =
     (newline @ ''        RARE MANUAL INTERVENTION REQUIRED (2% case)'' @ newline @
      ''        '' @ newline @ ''        System: '') @ ''revenue'' @ (newline @
      ''        Error: '' @ error @ newline @
      ''        Time: '' @ now @ newline @
      ''        '' @ newline @
      ''        The AI has attempted automatic recovery but requires human oversight.'' @ newline @
      ''        This represents the 2% of cases requiring manual attention.'' @ newline @
      ''        '')"
    by (simp add: alert_message_def)
  then have c1: "contains ''revenue'' (alert_message ''revenue'' error now)"
    by (simp only: contains_mid)
  have "alert_message ''revenue'' error now =
     (newline @ ''        RARE MANUAL INTERVENTION REQUIRED (2% case)'' @ newline @
      ''        '' @ newline @ ''        System: '' @ ''revenue'' @ newline @
      ''        Error: '') @ error @ (newline @
      ''        Time: '' @ now @ newline @
      ''        '' @ newline @
      ''        The AI has attempted automatic recovery but requires human oversight.'' @ newline @
      ''        This represents the 2% of cases requiring manual attention.'' @ newline @
      ''        '')"
    by (simp add: alert_message_def)
  then have c2: "contains error (alert_message ''revenue'' error now)"
    by (simp only: contains_mid)
  have "alert_message ''revenue'' error now =
     (newline @ ''        RARE MANUAL INTERVENTION REQUIRED (2% case)'' @ newline @
      ''        '' @ newline @ ''        System: '' @ ''revenue'' @ newline @
      ''        Error: '' @ error @ newline @
      ''        Time: '') @ now @ (newline @
      ''        '' @ newline @
      ''        The AI has attempted automatic recovery but requires human oversight.'' @ newline @
      ''        This represents the 2% of cases requiring manual attention.'' @ newline @
      ''        '')"
    by (simp add: alert_message_def)
  then have c3: "contains now (alert_message ''revenue'' error now)"
    by (simp only: contains_mid)
  from assms c1 c2 c3 show ?thesis
    by (simp add: handle_revenue_error_eq Let_def)
qed

text \<open>
  A fourth failure under a key that has been counted three times, with a sender that
  cannot reach the mail server: the sender is called, and its exception is raised by
  \<open>handle_revenue_error\<close>.
\<close>

theorem escalation_reaches_alert_witness:
  "fst (handle_revenue_error (Inr ()) (\<lambda>m. Inl (Raised ''mail server down'')) ''2024-05-01 14:00:00''
          ''database is locked''
          \<lparr>recovery_attempts = [''revenue_database is locked'' \<mapsto> 3],
           max_recovery_attempts = 3\<rparr>)
     = Inl (Raised ''mail server down'')
   \<and> fst (snd (handle_revenue_error (Inr ()) (\<lambda>m. Inl (Raised ''mail server down''))
          ''2024-05-01 14:00:00'' ''database is locked''
          \<lparr>recovery_attempts = [''revenue_database is locked'' \<mapsto> 3],
           max_recovery_attempts = 3\<rparr>))
     = [Send_manual_intervention_alert
          (alert_message ''revenue'' ''database is locked'' ''2024-05-01 14:00:00'')]"
proof -
  have exceeded:
    "max_recovery_attempts
        \<lparr>recovery_attempts = [''revenue_database is locked'' \<mapsto> 3], max_recovery_attempts = 3\<rparr>
       < (case recovery_attempts
                 \<lparr>recovery_attempts = [''revenue_database is locked'' \<mapsto> 3],
                  max_recovery_attempts = 3\<rparr>
               (revenue_error_key ''database is locked'') of
            None \<Rightarrow> 0 | Some n \<Rightarrow> n) + 1"
    by (simp add: revenue_error_key_def)
  show ?thesis
    using escalation_reaches_alert [OF exceeded,
        where alt = "Inr ()" and send = "\<lambda>m. Inl (Raised ''mail server down'')"
          and now = "''2024-05-01 14:00:00''"]
    by simp
qed

section \<open>The entry point: one failing coroutine\<close>

text \<open>
  Claim C6 (one cycle that raises leaves the results of the others returned and is
  reported apart, not propagated) at eight coroutines of which the third raises
  \<open>e\<close> and the others return: \<open>start_autonomous_operation\<close> raises \<open>e\<close>, and no
  result of the seven others is returned.
\<close>

theorem start_autonomous_operation_one_failure:
  "start_autonomous_operation (Inr s1) (Inr s2) (Inl e) (Inr s4) (Inr s5) (Inr s6) (Inr s7)
     (Inr s8) = Inl e"
  by (simp add: start_autonomous_operation_def)

section \<open>Agents: unknown kinds and the status\<close>

text \<open>
  Claim C4, as amended.  For every task whose kind is none of the two kinds that
  \<open>PodcastBookingAgent.execute_task\<close> handles, the method raises nothing: it returns
  \<open>None\<close>, and the status goes to \<open>WORKING\<close> and then to \<open>COMPLETED\<close>.
\<close>

theorem execute_task_unknown_kind:
  assumes "task_type task \<noteq> ''find_podcasts''" and "task_type task \<noteq> ''pitch_podcast''"
  shows "PodcastBookingAgent_execute_task pitch task = (VNone, [WORKING, COMPLETED])"
  using assms
  by (simp add: PodcastBookingAgent_execute_task_def PodcastBookingAgent_try_def
      try_except_finally_def)

text \<open>The amended claim at a task of the kind \<open>book_guest\<close>.\<close>

theorem execute_task_unknown_kind_witness:
  "PodcastBookingAgent_execute_task (\<lambda>podcasts data. Inr [])
     \<lparr>task_type = ''book_guest'', data = [(''guest'', VStr ''A. Person'')]\<rparr>
   = (VNone, [WORKING, COMPLETED])"
proof -
  have a: "task_type \<lparr>task_type = ''book_guest'', data = [(''guest'', VStr ''A. Person'')]\<rparr>
             \<noteq> ''find_podcasts''"
    by simp
  have b: "task_type \<lparr>task_type = ''book_guest'', data = [(''guest'', VStr ''A. Person'')]\<rparr>
             \<noteq> ''pitch_podcast''"
    by simp
  show ?thesis
    using execute_task_unknown_kind [OF a b] .
qed

text \<open>
  Claim C4 as stated fails: for the kind \<open>unknown\<close> the method returns \<open>None\<close> as
  an ordinary result and signals nothing.
\<close>

theorem execute_task_returns_None:
  "PodcastBookingAgent_execute_task (\<lambda>podcasts data. Inr [])
     \<lparr>task_type = ''unknown'', data = []\<rparr> = (VNone, [WORKING, COMPLETED])"
  by (simp add: PodcastBookingAgent_execute_task_def PodcastBookingAgent_try_def
      try_except_finally_def)

text \<open>
  Claim C5 (the status only moves forward, and never from error to completed) at a
  \<open>pitch_podcast\<close> task whose payload has no \<open>podcasts\<close> entry, and at a kimono order
  whose handler raises: the status is set to \<open>WORKING\<close>, then to \<open>ERROR\<close>, and then
  the \<open>finally\<close> clause sets it to \<open>COMPLETED\<close>.
\<close>

theorem execute_task_error_then_completed:
  "PodcastBookingAgent_execute_task pitch \<lparr>task_type = ''pitch_podcast'', data = []\<rparr>
     = (VDict [(''error'', VStr (quote @ ''podcasts'' @ quote))], [WORKING, ERROR, COMPLETED])
   \<and> SENANUKimonoAgent_execute_task (\<lambda>data. Inl e) schedule followup
       \<lparr>task_type = ''process_kimono_order'', data = []\<rparr>
     = (VDict [(''error'', VStr e)], [WORKING, ERROR, COMPLETED])"
  by (simp add: PodcastBookingAgent_execute_task_def PodcastBookingAgent_try_def
      send_podcast_pitches_def SENANUKimonoAgent_execute_task_def SENANUKimonoAgent_try_def
      try_except_finally_def)

end
